theory Spec2Isabelle
  imports Main
begin

section \<open>Values shared by the package\<close>

text \<open>
  A \<open>time.Time\<close> is kept as the instant it denotes (nanoseconds since the Unix epoch);
  \<open>UTC()\<close> changes the location a time is printed in, never the instant.
  A Go \<open>error\<close> is a value with a message; the nil error is \<open>None\<close> of \<open>error option\<close>,
  and a function returning \<open>(*T, error)\<close> returns \<open>error + T\<close> (\<open>Inl\<close> the error, with a
  nil pointer beside it).
\<close>

type_synonym time = int

definition UTC :: "time \<Rightarrow> time" where
  "UTC t = t"

definition zero_time :: time where
  "zero_time = - 62135596800000000000"

datatype error = Error string

fun Error_msg :: "error \<Rightarrow> string" where
  "Error_msg (Error m) = m"

text \<open>
  A \<open>context.Context\<close>: the task id the queue library attaches to the context of a
  running task (read by \<open>asynq.GetTaskID\<close>), and \<open>ctx.Err()\<close>, set once the context
  is cancelled or past its deadline.
\<close>

record Context =
  task_id :: "string option"
  ctx_err :: "error option"

definition GetTaskID :: "Context \<Rightarrow> string option" where
  "GetTaskID ctx = task_id ctx"

text \<open>
  Everything outside the package is reached through handles: a value of type \<open>'s\<close> is
  the state behind them (the database, the queue system, a Store implementation, the
  handlers). The package's own functions pass a world along: that state, the wall clock
  (\<open>time.Now()\<close> returns the readings one after the other) and the list of calls made
  through the handles, in order.
\<close>

record ('s, 'e) world =
  ext :: 's
  readings :: "nat \<Rightarrow> time"
  ticks :: nat
  trace :: "'e list"

definition time_Now :: "('s, 'e) world \<Rightarrow> time \<times> ('s, 'e) world" where
  "time_Now w = (readings w (ticks w), w\<lparr>ticks := Suc (ticks w)\<rparr>)"

section \<open>types.go\<close>

type_synonym Status = string

definition StatusCreated :: Status where
  "StatusCreated = ''created''"

definition StatusInProgress :: Status where
  "StatusInProgress = ''in_progress''"

definition StatusCompleted :: Status where
  "StatusCompleted = ''completed''"

definition StatusFailed :: Status where
  "StatusFailed = ''failed''"

record TaskRecord =
  ID :: string
  Type :: string
  Queue :: string
  PayloadJSON :: string
  Status :: Status
  ErrorMsg :: "string option"
  ResultJSON :: "string option"
  CreatedAt :: time
  EnqueuedAt :: time
  StartedAt :: "time option"
  FinishedAt :: "time option"

section \<open>The statements sent to the database\<close>

text \<open>
  Every statement of store.go is on the table \<open>asyncx_tasks\<close> and comes in two
  spellings, with positional placeholders (\<open>?\<close>) and with numbered ones (\<open>$1, $2, ...\<close>):
  \<^item> \<open>INSERT cols\<close> is \<open>INSERT INTO asyncx_tasks (cols) VALUES (one placeholder each)\<close>;
  \<^item> \<open>UPDATE sets\<close> is \<open>UPDATE asyncx_tasks SET col = expr, ... WHERE id = placeholder\<close>,
    the last argument being the id;
  \<^item> \<open>SELECT cols\<close> is \<open>SELECT cols FROM asyncx_tasks WHERE id = placeholder\<close>.
\<close>

datatype placeholder = Positional | Numbered

datatype column =
    col_id | col_type | col_queue | col_payload_json | col_status
  | col_error_msg | col_result_json
  | col_created_at | col_updated_at | col_enqueued_at | col_started_at | col_finished_at

datatype sqlval = Null | Text string | Timestamp time

datatype expr = Param | CURRENT_TIMESTAMP | NOW

datatype query =
    INSERT "column list"
  | UPDATE "(column \<times> expr) list"
  | SELECT "column list"

text \<open>
  What \<open>Scan\<close> leaves in the eleven destinations of \<open>GetByID\<close>: five strings, two
  \<open>sql.NullString\<close>, a \<open>time.Time\<close> and three \<open>sql.NullTime\<close> (\<open>None\<close> is \<open>Valid = false\<close>).
\<close>

record Row =
  row_id :: string
  row_type :: string
  row_queue :: string
  row_payload_json :: string
  row_status :: string
  row_error_msg :: "string option"
  row_result_json :: "string option"
  row_created_at :: time
  row_enqueued_at :: "time option"
  row_started_at :: "time option"
  row_finished_at :: "time option"

text \<open>
  A \<open>*sql.DB\<close> over a database in state \<open>'d\<close>. \<open>ExecContext\<close> returns the number of
  rows affected or an error; \<open>QueryRowContext\<close> stands for the query and the \<open>Scan\<close> of
  its row, whose error is the one the caller sees. Nothing is assumed of either: a
  theorem about every handle holds for every driver and every failure.
\<close>

record 'd DB =
  ExecContext :: "Context \<Rightarrow> placeholder \<Rightarrow> query \<Rightarrow> sqlval list \<Rightarrow> 'd \<Rightarrow> (error + nat) \<times> 'd"
  QueryRowContext :: "Context \<Rightarrow> placeholder \<Rightarrow> query \<Rightarrow> sqlval list \<Rightarrow> 'd \<Rightarrow> (error + Row) \<times> 'd"

text \<open>A call through the handle, as the trace records it: the statement, its arguments and the error it came back with.\<close>

datatype sqlcall =
    Exec placeholder query "sqlval list" "error option"
  | Query placeholder query "sqlval list" "error option"

fun failure :: "error + 'a \<Rightarrow> error option" where
  "failure (Inl e) = Some e"
| "failure (Inr _) = None"

definition db_ExecContext ::
  "'d DB \<Rightarrow> Context \<Rightarrow> placeholder \<Rightarrow> query \<Rightarrow> sqlval list \<Rightarrow> ('d, sqlcall) world
    \<Rightarrow> (error + nat) \<times> ('d, sqlcall) world" where
  "db_ExecContext h ctx p q args w =
     (case ExecContext h ctx p q args (ext w) of
        (r, d) \<Rightarrow> (r, w\<lparr>ext := d, trace := trace w @ [Exec p q args (failure r)]\<rparr>))"

definition db_QueryRowContext ::
  "'d DB \<Rightarrow> Context \<Rightarrow> placeholder \<Rightarrow> query \<Rightarrow> sqlval list \<Rightarrow> ('d, sqlcall) world
    \<Rightarrow> (error + Row) \<times> ('d, sqlcall) world" where
  "db_QueryRowContext h ctx p q args w =
     (case QueryRowContext h ctx p q args (ext w) of
        (r, d) \<Rightarrow> (r, w\<lparr>ext := d, trace := trace w @ [Query p q args (failure r)]\<rparr>))"

section \<open>store.go: SQLStore\<close>

record 'd SQLStore =
  db :: "'d DB option"

definition NewSQLStore :: "'d DB option \<Rightarrow> 'd SQLStore" where
  "NewSQLStore d = \<lparr>db = d\<rparr>"

definition insert_columns :: "column list" where
  "insert_columns = [col_id, col_type, col_queue, col_payload_json, col_status, col_created_at]"

definition SQLStore_InsertCreated ::
  "'d SQLStore \<Rightarrow> Context \<Rightarrow> TaskRecord \<Rightarrow> ('d, sqlcall) world
    \<Rightarrow> error option \<times> ('d, sqlcall) world" where
  "SQLStore_InsertCreated s ctx rec w =
     (case db s of
        None \<Rightarrow> (Some (Error ''nil db''), w)
      | Some h \<Rightarrow>
          (case time_Now w of (now, w1) \<Rightarrow>
           (case db_ExecContext h ctx Positional (INSERT insert_columns)
                   [Text (ID rec), Text (Type rec), Text (Queue rec), Text (PayloadJSON rec),
                    Text StatusCreated, Timestamp (UTC now)] w1 of
              (Inr _, w2) \<Rightarrow> (None, w2)
            | (Inl err, w2) \<Rightarrow>
                (case time_Now w2 of (now2, w3) \<Rightarrow>
                 (case db_ExecContext h ctx Numbered (INSERT insert_columns)
                         [Text (ID rec), Text (Type rec), Text (Queue rec), Text (PayloadJSON rec),
                          Text StatusCreated, Timestamp (UTC now2)] w3 of
                    (err2, w4) \<Rightarrow> (failure err2, w4))))))"

definition SQLStore_MarkEnqueued ::
  "'d SQLStore \<Rightarrow> Context \<Rightarrow> string \<Rightarrow> string \<Rightarrow> time \<Rightarrow> ('d, sqlcall) world
    \<Rightarrow> error option \<times> ('d, sqlcall) world" where
  "SQLStore_MarkEnqueued s ctx taskID queue enqueuedAt w =
     (case db s of
        None \<Rightarrow> (Some (Error ''nil db''), w)
      | Some h \<Rightarrow>
          (case db_ExecContext h ctx Positional
                  (UPDATE [(col_status, Param), (col_queue, Param), (col_enqueued_at, Param),
                           (col_updated_at, CURRENT_TIMESTAMP)])
                  [Text StatusCreated, Text queue, Timestamp (UTC enqueuedAt), Text taskID] w of
             (Inr _, w1) \<Rightarrow> (None, w1)
           | (Inl err, w1) \<Rightarrow>
               (case db_ExecContext h ctx Numbered
                       (UPDATE [(col_status, Param), (col_queue, Param), (col_enqueued_at, Param),
                                (col_updated_at, NOW)])
                       [Text StatusCreated, Text queue, Timestamp (UTC enqueuedAt), Text taskID] w1 of
                  (err2, w2) \<Rightarrow> (failure err2, w2))))"

definition SQLStore_MarkStarted ::
  "'d SQLStore \<Rightarrow> Context \<Rightarrow> string \<Rightarrow> time \<Rightarrow> ('d, sqlcall) world
    \<Rightarrow> error option \<times> ('d, sqlcall) world" where
  "SQLStore_MarkStarted s ctx taskID startedAt w =
     (case db s of
        None \<Rightarrow> (Some (Error ''nil db''), w)
      | Some h \<Rightarrow>
          (case db_ExecContext h ctx Positional
                  (UPDATE [(col_status, Param), (col_started_at, Param),
                           (col_updated_at, CURRENT_TIMESTAMP)])
                  [Text StatusInProgress, Timestamp (UTC startedAt), Text taskID] w of
             (Inr _, w1) \<Rightarrow> (None, w1)
           | (Inl err, w1) \<Rightarrow>
               (case db_ExecContext h ctx Numbered
                       (UPDATE [(col_status, Param), (col_started_at, Param),
                                (col_updated_at, NOW)])
                       [Text StatusInProgress, Timestamp (UTC startedAt), Text taskID] w1 of
                  (err2, w2) \<Rightarrow> (failure err2, w2))))"

fun nullable :: "string option \<Rightarrow> sqlval" where
  "nullable None = Null"
| "nullable (Some v) = Text v"

definition SQLStore_MarkCompleted ::
  "'d SQLStore \<Rightarrow> Context \<Rightarrow> string \<Rightarrow> string option \<Rightarrow> time \<Rightarrow> ('d, sqlcall) world
    \<Rightarrow> error option \<times> ('d, sqlcall) world" where
  "SQLStore_MarkCompleted s ctx taskID resultJSON finishedAt w =
     (case db s of
        None \<Rightarrow> (Some (Error ''nil db''), w)
      | Some h \<Rightarrow>
          (case db_ExecContext h ctx Positional
                  (UPDATE [(col_status, Param), (col_result_json, Param), (col_finished_at, Param),
                           (col_updated_at, CURRENT_TIMESTAMP)])
                  [Text StatusCompleted, nullable resultJSON, Timestamp (UTC finishedAt), Text taskID] w of
             (Inr _, w1) \<Rightarrow> (None, w1)
           | (Inl err, w1) \<Rightarrow>
               (case db_ExecContext h ctx Numbered
                       (UPDATE [(col_status, Param), (col_result_json, Param), (col_finished_at, Param),
                                (col_updated_at, NOW)])
                       [Text StatusCompleted, nullable resultJSON, Timestamp (UTC finishedAt), Text taskID] w1 of
                  (err2, w2) \<Rightarrow> (failure err2, w2))))"

definition SQLStore_MarkFailed ::
  "'d SQLStore \<Rightarrow> Context \<Rightarrow> string \<Rightarrow> string \<Rightarrow> time \<Rightarrow> ('d, sqlcall) world
    \<Rightarrow> error option \<times> ('d, sqlcall) world" where
  "SQLStore_MarkFailed s ctx taskID errorMsg finishedAt w =
     (case db s of
        None \<Rightarrow> (Some (Error ''nil db''), w)
      | Some h \<Rightarrow>
          (case db_ExecContext h ctx Positional
                  (UPDATE [(col_status, Param), (col_error_msg, Param), (col_finished_at, Param),
                           (col_updated_at, CURRENT_TIMESTAMP)])
                  [Text StatusFailed, Text errorMsg, Timestamp (UTC finishedAt), Text taskID] w of
             (Inr _, w1) \<Rightarrow> (None, w1)
           | (Inl err, w1) \<Rightarrow>
               (case db_ExecContext h ctx Numbered
                       (UPDATE [(col_status, Param), (col_error_msg, Param), (col_finished_at, Param),
                                (col_updated_at, NOW)])
                       [Text StatusFailed, Text errorMsg, Timestamp (UTC finishedAt), Text taskID] w1 of
                  (err2, w2) \<Rightarrow> (failure err2, w2))))"

definition select_columns :: "column list" where
  "select_columns =
     [col_id, col_type, col_queue, col_payload_json, col_status, col_error_msg, col_result_json,
      col_created_at, col_enqueued_at, col_started_at, col_finished_at]"

text \<open>
  The part of \<open>GetByID\<close> after a successful \<open>Scan\<close>: the record starts as the zero
  \<open>TaskRecord\<close>, the pointer fields stay nil and \<open>EnqueuedAt\<close> stays the zero time unless
  the scanned value is valid.
\<close>

definition record_of_row :: "Row \<Rightarrow> TaskRecord" where
  "record_of_row r =
     \<lparr>ID = row_id r, Type = row_type r, Queue = row_queue r, PayloadJSON = row_payload_json r,
      Status = row_status r,
      ErrorMsg = row_error_msg r,
      ResultJSON = row_result_json r,
      CreatedAt = row_created_at r,
      EnqueuedAt = (case row_enqueued_at r of None \<Rightarrow> zero_time | Some t \<Rightarrow> t),
      StartedAt = row_started_at r,
      FinishedAt = row_finished_at r\<rparr>"

definition SQLStore_GetByID ::
  "'d SQLStore \<Rightarrow> Context \<Rightarrow> string \<Rightarrow> ('d, sqlcall) world
    \<Rightarrow> (error + TaskRecord) \<times> ('d, sqlcall) world" where
  "SQLStore_GetByID s ctx taskID w =
     (case db s of
        None \<Rightarrow> (Inl (Error ''nil db''), w)
      | Some h \<Rightarrow>
          (case db_QueryRowContext h ctx Positional (SELECT select_columns) [Text taskID] w of
             (Inr row, w1) \<Rightarrow> (Inr (record_of_row row), w1)
           | (Inl err, w1) \<Rightarrow>
               (case db_QueryRowContext h ctx Numbered (SELECT select_columns) [Text taskID] w1 of
                  (Inl err2, w2) \<Rightarrow> (Inl err2, w2)
                | (Inr row, w2) \<Rightarrow> (Inr (record_of_row row), w2))))"

section \<open>The database behind the handle\<close>

text \<open>
  A reference engine for the table of migrations/001_create_tasks.sql, for the claims
  that say what a stored row looks like. It keeps one tuple per primary key \<open>id\<close>,
  holds the \<open>NOT NULL\<close> constraints and the column types of the schema, and stores
  strings and timestamps as they are given. Its dialect is a parameter: which
  placeholder spellings it parses and whether it knows \<open>NOW()\<close> (MySQL parses only \<open>?\<close>,
  Postgres only \<open>$n\<close>, SQLite has no \<open>NOW()\<close>). A statement fails, changing nothing, when
  the context is done, the connection is down or the dialect does not parse it.
\<close>

datatype coltype = TEXT | DATETIME

fun column_type :: "column \<Rightarrow> coltype" where
  "column_type col_id = TEXT"
| "column_type col_type = TEXT"
| "column_type col_queue = TEXT"
| "column_type col_payload_json = TEXT"
| "column_type col_status = TEXT"
| "column_type col_error_msg = TEXT"
| "column_type col_result_json = TEXT"
| "column_type col_created_at = DATETIME"
| "column_type col_updated_at = DATETIME"
| "column_type col_enqueued_at = DATETIME"
| "column_type col_started_at = DATETIME"
| "column_type col_finished_at = DATETIME"

fun not_null :: "column \<Rightarrow> bool" where
  "not_null col_id = True"
| "not_null col_type = True"
| "not_null col_queue = True"
| "not_null col_payload_json = True"
| "not_null col_status = True"
| "not_null col_error_msg = False"
| "not_null col_result_json = False"
| "not_null col_created_at = True"
| "not_null col_updated_at = False"
| "not_null col_enqueued_at = False"
| "not_null col_started_at = False"
| "not_null col_finished_at = False"

definition all_columns :: "column list" where
  "all_columns =
     [col_id, col_type, col_queue, col_payload_json, col_status, col_error_msg, col_result_json,
      col_created_at, col_updated_at, col_enqueued_at, col_started_at, col_finished_at]"

fun well_typed :: "column \<Rightarrow> sqlval \<Rightarrow> bool" where
  "well_typed c Null = (\<not> not_null c)"
| "well_typed c (Text _) = (column_type c = TEXT)"
| "well_typed c (Timestamp _) = (column_type c = DATETIME)"

type_synonym tuple = "column \<Rightarrow> sqlval"

record engine =
  rows :: "string \<Rightarrow> tuple option"
  parses :: "placeholder \<Rightarrow> bool"
  has_NOW :: bool
  server_time :: time
  outage :: "error option"

fun uses_NOW :: "query \<Rightarrow> bool" where
  "uses_NOW (UPDATE sets) = list_ex (\<lambda>(c, e). e = NOW) sets"
| "uses_NOW _ = False"

definition refused :: "engine \<Rightarrow> Context \<Rightarrow> placeholder \<Rightarrow> query \<Rightarrow> error option" where
  "refused d ctx p q =
     (case ctx_err ctx of
        Some e \<Rightarrow> Some e
      | None \<Rightarrow>
          (case outage d of
             Some e \<Rightarrow> Some e
           | None \<Rightarrow>
               if parses d p
               then (if uses_NOW q \<and> \<not> has_NOW d then Some (Error ''no such function: NOW'') else None)
               else Some (Error ''syntax error'')))"

text \<open>
  The values of a \<open>SET\<close> list, left to right: a placeholder takes the next argument,
  \<open>CURRENT_TIMESTAMP\<close> and \<open>NOW()\<close> the engine's clock. What is left of the arguments
  is for the \<open>WHERE\<close> clause.
\<close>

fun bind_params ::
  "(column \<times> expr) list \<Rightarrow> sqlval list \<Rightarrow> time \<Rightarrow> ((column \<times> sqlval) list \<times> sqlval list) option" where
  "bind_params [] args now = Some ([], args)"
| "bind_params ((c, Param) # sets) [] now = None"
| "bind_params ((c, Param) # sets) (v # args) now =
     (case bind_params sets args now of
        None \<Rightarrow> None
      | Some (bs, rest) \<Rightarrow> Some ((c, v) # bs, rest))"
| "bind_params ((c, CURRENT_TIMESTAMP) # sets) args now =
     (case bind_params sets args now of
        None \<Rightarrow> None
      | Some (bs, rest) \<Rightarrow> Some ((c, Timestamp now) # bs, rest))"
| "bind_params ((c, NOW) # sets) args now =
     (case bind_params sets args now of
        None \<Rightarrow> None
      | Some (bs, rest) \<Rightarrow> Some ((c, Timestamp now) # bs, rest))"

definition assign :: "(column \<times> sqlval) list \<Rightarrow> tuple \<Rightarrow> tuple" where
  "assign bs r = fold (\<lambda>(c, v) r. r(c := v)) bs r"

text \<open>
  An \<open>UPDATE\<close> whose \<open>WHERE id = ...\<close> matches no row succeeds with zero rows affected.
  The engine refuses an update of the key column, which store.go never sends.
\<close>

fun run_exec :: "query \<Rightarrow> sqlval list \<Rightarrow> engine \<Rightarrow> (error + nat) \<times> engine" where
  "run_exec (INSERT cols) args d =
     (if length args = length cols \<and> distinct cols
      then (let r = assign (zip cols args) (\<lambda>c. Null) in
            if list_all (\<lambda>c. well_typed c (r c)) all_columns
            then (case r col_id of
                    Text k \<Rightarrow>
                      (case rows d k of
                         Some old \<Rightarrow> (Inl (Error ''duplicate key''), d)
                       | None \<Rightarrow> (Inr 1, d\<lparr>rows := (rows d)(k := Some r)\<rparr>))
                  | other \<Rightarrow> (Inl (Error ''constraint failed''), d))
            else (Inl (Error ''constraint failed''), d))
      else (Inl (Error ''wrong number of values''), d))"
| "run_exec (UPDATE sets) args d =
     (case bind_params sets args (server_time d) of
        Some (bs, [key]) \<Rightarrow>
          (if list_ex (\<lambda>(c, v). c = col_id) bs then (Inl (Error ''update of the key''), d)
           else if list_all (\<lambda>(c, v). well_typed c v) bs
           then (case key of
                   Text k \<Rightarrow>
                     (case rows d k of
                        None \<Rightarrow> (Inr 0, d)
                      | Some r \<Rightarrow> (Inr 1, d\<lparr>rows := (rows d)(k := Some (assign bs r))\<rparr>))
                 | other \<Rightarrow> (Inr 0, d))
           else (Inl (Error ''constraint failed''), d))
      | other \<Rightarrow> (Inl (Error ''wrong number of arguments''), d))"
| "run_exec (SELECT cols) args d =
     (case args of
        [key] \<Rightarrow> (Inr 0, d)
      | other \<Rightarrow> (Inl (Error ''wrong number of arguments''), d))"

definition engine_exec ::
  "Context \<Rightarrow> placeholder \<Rightarrow> query \<Rightarrow> sqlval list \<Rightarrow> engine \<Rightarrow> (error + nat) \<times> engine" where
  "engine_exec ctx p q args d =
     (case refused d ctx p q of
        Some e \<Rightarrow> (Inl e, d)
      | None \<Rightarrow> run_exec q args d)"

text \<open>
  \<open>Scan\<close> into the destinations of \<open>GetByID\<close>, in their order: a string does not take
  \<open>NULL\<close>, a \<open>NullString\<close> and a \<open>NullTime\<close> do. A text column never holds a timestamp
  in this engine, nor a datetime column a text, so a value of the other type is
  refused here rather than converted.
\<close>

fun to_string :: "sqlval \<Rightarrow> error + string" where
  "to_string (Text s) = Inr s"
| "to_string Null = Inl (Error ''converting NULL to string is unsupported'')"
| "to_string (Timestamp t) = Inl (Error ''unsupported Scan'')"

fun to_NullString :: "sqlval \<Rightarrow> error + string option" where
  "to_NullString (Text s) = Inr (Some s)"
| "to_NullString Null = Inr None"
| "to_NullString (Timestamp t) = Inl (Error ''unsupported Scan'')"

fun to_Time :: "sqlval \<Rightarrow> error + time" where
  "to_Time (Timestamp t) = Inr t"
| "to_Time Null = Inl (Error ''unsupported Scan'')"
| "to_Time (Text s) = Inl (Error ''unsupported Scan'')"

fun to_NullTime :: "sqlval \<Rightarrow> error + time option" where
  "to_NullTime (Timestamp t) = Inr (Some t)"
| "to_NullTime Null = Inr None"
| "to_NullTime (Text s) = Inl (Error ''unsupported Scan'')"

definition and_then :: "error + 'a \<Rightarrow> ('a \<Rightarrow> error + 'b) \<Rightarrow> error + 'b" where
  "and_then r f = (case r of Inl e \<Rightarrow> Inl e | Inr v \<Rightarrow> f v)"

fun Scan :: "sqlval list \<Rightarrow> error + Row" where
  "Scan [v1, v2, v3, v4, v5, v6, v7, v8, v9, v10, v11] =
     and_then (to_string v1) (\<lambda>a1.
     and_then (to_string v2) (\<lambda>a2.
     and_then (to_string v3) (\<lambda>a3.
     and_then (to_string v4) (\<lambda>a4.
     and_then (to_string v5) (\<lambda>a5.
     and_then (to_NullString v6) (\<lambda>a6.
     and_then (to_NullString v7) (\<lambda>a7.
     and_then (to_Time v8) (\<lambda>a8.
     and_then (to_NullTime v9) (\<lambda>a9.
     and_then (to_NullTime v10) (\<lambda>a10.
     and_then (to_NullTime v11) (\<lambda>a11.
       Inr \<lparr>row_id = a1, row_type = a2, row_queue = a3, row_payload_json = a4, row_status = a5,
            row_error_msg = a6, row_result_json = a7, row_created_at = a8,
            row_enqueued_at = a9, row_started_at = a10, row_finished_at = a11\<rparr>)))))))))))"
| "Scan vs = Inl (Error ''sql: wrong number of destination arguments in Scan'')"

definition ErrNoRows :: error where
  "ErrNoRows = Error ''sql: no rows in result set''"

definition engine_query ::
  "Context \<Rightarrow> placeholder \<Rightarrow> query \<Rightarrow> sqlval list \<Rightarrow> engine \<Rightarrow> (error + Row) \<times> engine" where
  "engine_query ctx p q args d =
     (case refused d ctx p q of
        Some e \<Rightarrow> (Inl e, d)
      | None \<Rightarrow>
          (case q of
             SELECT cols \<Rightarrow>
               (case args of
                  [Text k] \<Rightarrow>
                    (case rows d k of
                       None \<Rightarrow> (Inl ErrNoRows, d)
                     | Some r \<Rightarrow> (Scan (map r cols), d))
                | [other] \<Rightarrow> (Inl ErrNoRows, d)
                | others \<Rightarrow> (Inl (Error ''wrong number of arguments''), d))
           | statement \<Rightarrow>
               (case run_exec q args d of
                  (Inl e, d') \<Rightarrow> (Inl e, d')
                | (Inr n, d') \<Rightarrow> (Inl ErrNoRows, d'))))"

definition engine_DB :: "engine DB" where
  "engine_DB = \<lparr>ExecContext = engine_exec, QueryRowContext = engine_query\<rparr>"

section \<open>The Store port and the queue library\<close>

text \<open>
  The \<open>Store\<close> interface of store.go: any implementation, acting on the state \<open>'s\<close>
  behind it. A nil interface value is \<open>None\<close> of \<open>'s Store option\<close>.
\<close>

record 's Store =
  InsertCreated :: "Context \<Rightarrow> TaskRecord \<Rightarrow> 's \<Rightarrow> error option \<times> 's"
  MarkEnqueued :: "Context \<Rightarrow> string \<Rightarrow> string \<Rightarrow> time \<Rightarrow> 's \<Rightarrow> error option \<times> 's"
  MarkStarted :: "Context \<Rightarrow> string \<Rightarrow> time \<Rightarrow> 's \<Rightarrow> error option \<times> 's"
  MarkCompleted :: "Context \<Rightarrow> string \<Rightarrow> string option \<Rightarrow> time \<Rightarrow> 's \<Rightarrow> error option \<times> 's"
  MarkFailed :: "Context \<Rightarrow> string \<Rightarrow> string \<Rightarrow> time \<Rightarrow> 's \<Rightarrow> error option \<times> 's"
  GetByID :: "Context \<Rightarrow> string \<Rightarrow> 's \<Rightarrow> (error + TaskRecord) \<times> 's"

text \<open>
  What the package uses of the queue library: a task (\<open>asynq.NewTask\<close>), the options of
  a submission, the acknowledgment \<open>asynq.TaskInfo\<close>, the producer handle
  \<open>*asynq.Client\<close> and a task handler (\<open>asynq.Handler\<close>).
\<close>

record Task =
  typename :: string
  payload :: string

definition NewTask :: "string \<Rightarrow> string \<Rightarrow> Task" where
  "NewTask taskType payloadBytes = \<lparr>typename = taskType, payload = payloadBytes\<rparr>"

datatype asynq_Option =
    asynq_Queue string
  | asynq_MaxRetry int
  | asynq_Timeout int
  | asynq_TaskID string

record TaskInfo =
  TaskInfo_ID :: string
  TaskInfo_Queue :: string
  TaskInfo_Type :: string
  TaskInfo_Payload :: string

record 's asynq_Client =
  EnqueueContext :: "Context \<Rightarrow> Task \<Rightarrow> asynq_Option list \<Rightarrow> 's \<Rightarrow> (error + TaskInfo) \<times> 's"

type_synonym 's Handler = "Context \<Rightarrow> Task \<Rightarrow> 's \<Rightarrow> error option \<times> 's"

text \<open>
  The calls the Client and the Processor make through their handles, as the trace
  records them, with the arguments they were made with.
\<close>

datatype event =
    Submitted Task "asynq_Option list"
  | Called_InsertCreated TaskRecord
  | Called_MarkEnqueued string string time
  | Called_MarkStarted string time
  | Called_MarkCompleted string "string option" time
  | Called_MarkFailed string string time
  | Handled Context Task

definition client_EnqueueContext ::
  "'s asynq_Client \<Rightarrow> Context \<Rightarrow> Task \<Rightarrow> asynq_Option list \<Rightarrow> ('s, event) world
    \<Rightarrow> (error + TaskInfo) \<times> ('s, event) world" where
  "client_EnqueueContext cl ctx t opts w =
     (case EnqueueContext cl ctx t opts (ext w) of
        (r, s) \<Rightarrow> (r, w\<lparr>ext := s, trace := trace w @ [Submitted t opts]\<rparr>))"

definition store_InsertCreated ::
  "'s Store \<Rightarrow> Context \<Rightarrow> TaskRecord \<Rightarrow> ('s, event) world \<Rightarrow> error option \<times> ('s, event) world" where
  "store_InsertCreated st ctx rec w =
     (case InsertCreated st ctx rec (ext w) of
        (r, s) \<Rightarrow> (r, w\<lparr>ext := s, trace := trace w @ [Called_InsertCreated rec]\<rparr>))"

definition store_MarkEnqueued ::
  "'s Store \<Rightarrow> Context \<Rightarrow> string \<Rightarrow> string \<Rightarrow> time \<Rightarrow> ('s, event) world
    \<Rightarrow> error option \<times> ('s, event) world" where
  "store_MarkEnqueued st ctx taskID queue enqueuedAt w =
     (case MarkEnqueued st ctx taskID queue enqueuedAt (ext w) of
        (r, s) \<Rightarrow> (r, w\<lparr>ext := s, trace := trace w @ [Called_MarkEnqueued taskID queue enqueuedAt]\<rparr>))"

definition store_MarkStarted ::
  "'s Store \<Rightarrow> Context \<Rightarrow> string \<Rightarrow> time \<Rightarrow> ('s, event) world
    \<Rightarrow> error option \<times> ('s, event) world" where
  "store_MarkStarted st ctx taskID startedAt w =
     (case MarkStarted st ctx taskID startedAt (ext w) of
        (r, s) \<Rightarrow> (r, w\<lparr>ext := s, trace := trace w @ [Called_MarkStarted taskID startedAt]\<rparr>))"

definition store_MarkCompleted ::
  "'s Store \<Rightarrow> Context \<Rightarrow> string \<Rightarrow> string option \<Rightarrow> time \<Rightarrow> ('s, event) world
    \<Rightarrow> error option \<times> ('s, event) world" where
  "store_MarkCompleted st ctx taskID resultJSON finishedAt w =
     (case MarkCompleted st ctx taskID resultJSON finishedAt (ext w) of
        (r, s) \<Rightarrow>
          (r, w\<lparr>ext := s, trace := trace w @ [Called_MarkCompleted taskID resultJSON finishedAt]\<rparr>))"

definition store_MarkFailed ::
  "'s Store \<Rightarrow> Context \<Rightarrow> string \<Rightarrow> string \<Rightarrow> time \<Rightarrow> ('s, event) world
    \<Rightarrow> error option \<times> ('s, event) world" where
  "store_MarkFailed st ctx taskID errorMsg finishedAt w =
     (case MarkFailed st ctx taskID errorMsg finishedAt (ext w) of
        (r, s) \<Rightarrow> (r, w\<lparr>ext := s, trace := trace w @ [Called_MarkFailed taskID errorMsg finishedAt]\<rparr>))"

definition handler_ProcessTask ::
  "'s Handler \<Rightarrow> Context \<Rightarrow> Task \<Rightarrow> ('s, event) world \<Rightarrow> error option \<times> ('s, event) world" where
  "handler_ProcessTask next ctx t w =
     (case next ctx t (ext w) of
        (r, s) \<Rightarrow> (r, w\<lparr>ext := s, trace := trace w @ [Handled ctx t]\<rparr>))"

section \<open>The enqueue client (src/unnamed/part_003): Client\<close>

record 's Client =
  client :: "'s asynq_Client option"
  store :: "'s Store option"
  queue :: string

record ClientOptions =
  ClientOptions_Queue :: string

text \<open>\<open>NewClient\<close> takes the handle that \<open>asynq.NewClient(redisOpt)\<close> returns.\<close>

definition NewClient :: "'s asynq_Client \<Rightarrow> 's Store option \<Rightarrow> ClientOptions \<Rightarrow> 's Client" where
  "NewClient asynq_NewClient st opts =
     (let q = (if ClientOptions_Queue opts = [] then ''default'' else ClientOptions_Queue opts)
      in \<lparr>client = Some asynq_NewClient, store = st, queue = q\<rparr>)"

text \<open>
  \<open>Enqueue\<close>. The payload is any Go value, of type \<open>'p\<close> here, and \<open>json.Marshal\<close> a
  parameter: its bytes or its error.
\<close>

definition Enqueue ::
  "('p \<Rightarrow> error + string) \<Rightarrow> 's Client \<Rightarrow> Context \<Rightarrow> string \<Rightarrow> 'p \<Rightarrow> asynq_Option list
    \<Rightarrow> ('s, event) world \<Rightarrow> (error + TaskInfo) \<times> ('s, event) world" where
  "Enqueue json_Marshal c ctx taskType pl options w =
     (case client c of
        None \<Rightarrow> (Inl (Error ''nil asynq client''), w)
      | Some cl \<Rightarrow>
          (case json_Marshal pl of
             Inl err \<Rightarrow> (Inl err, w)
           | Inr payloadBytes \<Rightarrow>
               (let t = NewTask taskType payloadBytes in
                case client_EnqueueContext cl ctx t (options @ [asynq_Queue (queue c)]) w of
                  (Inl err, w1) \<Rightarrow> (Inl err, w1)
                | (Inr info, w1) \<Rightarrow>
                    (case time_Now w1 of (createdAt, w2) \<Rightarrow>
                     case time_Now w2 of (enqueuedAt, w3) \<Rightarrow>
                       (let rec = \<lparr>ID = TaskInfo_ID info, Type = taskType, Queue = TaskInfo_Queue info,
                                   PayloadJSON = payloadBytes, Status = StatusCreated,
                                   ErrorMsg = None, ResultJSON = None,
                                   CreatedAt = UTC createdAt, EnqueuedAt = UTC enqueuedAt,
                                   StartedAt = None, FinishedAt = None\<rparr>
                        in case Client.store c of
                             None \<Rightarrow> (Inr info, w3)
                           | Some st \<Rightarrow>
                               (case store_InsertCreated st ctx rec w3 of (e1, w4) \<Rightarrow>
                                case time_Now w4 of (now, w5) \<Rightarrow>
                                case store_MarkEnqueued st ctx (TaskInfo_ID info) (TaskInfo_Queue info)
                                       (UTC now) w5 of (e2, w6) \<Rightarrow>
                                  (Inr info, w6)))))))"

section \<open>processor.go: Processor\<close>

text \<open>
  The worker pool behind \<open>server\<close> is the queue library's; the middleware uses only the
  Store. It returns the handler that wraps \<open>next\<close>.
\<close>

record ('s, 'srv) Processor =
  server :: 'srv
  store :: "'s Store option"

definition lifecycleMiddleware ::
  "('s, 'srv) Processor \<Rightarrow> 's Handler \<Rightarrow> Context \<Rightarrow> Task \<Rightarrow> ('s, event) world
    \<Rightarrow> error option \<times> ('s, event) world" where
  "lifecycleMiddleware p next ctx t w =
     (let w1 = (case Processor.store p of
                  None \<Rightarrow> w
                | Some st \<Rightarrow>
                    (case GetTaskID ctx of
                       None \<Rightarrow> w
                     | Some tid \<Rightarrow>
                         (case time_Now w of (now, w') \<Rightarrow>
                            snd (store_MarkStarted st ctx tid (UTC now) w'))))
      in case handler_ProcessTask next ctx t w1 of
           (err, w2) \<Rightarrow>
             (err,
              (case Processor.store p of
                 None \<Rightarrow> w2
               | Some st \<Rightarrow>
                   (case GetTaskID ctx of
                      None \<Rightarrow> w2
                    | Some tid \<Rightarrow>
                        (case err of
                           Some e \<Rightarrow>
                             (case time_Now w2 of (now, w') \<Rightarrow>
                                snd (store_MarkFailed st ctx tid (Error_msg e) (UTC now) w'))
                         | None \<Rightarrow>
                             (case time_Now w2 of (now, w') \<Rightarrow>
                                snd (store_MarkCompleted st ctx tid None (UTC now) w')))))))"

section \<open>Notions the properties are stated with\<close>

text \<open>
  The dual-dialect access pattern, in the words of the specification: the statement is
  tried with positional placeholders; if that fails it is tried once more, with
  numbered placeholders, and the caller sees the second attempt's error. Read off the
  trace: the calls an operation added are one successful positional call, or a failed
  positional call followed by one numbered call of the same statement.
\<close>

fun style :: "sqlcall \<Rightarrow> placeholder" where
  "style (Exec p q args e) = p"
| "style (Query p q args e) = p"

fun outcome :: "sqlcall \<Rightarrow> error option" where
  "outcome (Exec p q args e) = e"
| "outcome (Query p q args e) = e"

fun columns_of :: "query \<Rightarrow> column list" where
  "columns_of (INSERT cols) = cols"
| "columns_of (UPDATE sets) = map fst sets"
| "columns_of (SELECT cols) = cols"

fun same_verb :: "query \<Rightarrow> query \<Rightarrow> bool" where
  "same_verb (INSERT a) (INSERT b) = True"
| "same_verb (UPDATE a) (UPDATE b) = True"
| "same_verb (SELECT a) (SELECT b) = True"
| "same_verb a b = False"

fun is_timestamp :: "sqlval \<Rightarrow> bool" where
  "is_timestamp (Timestamp t) = True"
| "is_timestamp v = False"

definition same_args :: "sqlval list \<Rightarrow> sqlval list \<Rightarrow> bool" where
  "same_args xs ys = list_all2 (\<lambda>x y. x = y \<or> (is_timestamp x \<and> is_timestamp y)) xs ys"

fun same_statement :: "sqlcall \<Rightarrow> sqlcall \<Rightarrow> bool" where
  "same_statement (Exec p q args e) (Exec p' q' args' e') =
     (same_verb q q' \<and> columns_of q = columns_of q' \<and> same_args args args')"
| "same_statement (Query p q args e) (Query p' q' args' e') =
     (same_verb q q' \<and> columns_of q = columns_of q' \<and> same_args args args')"
| "same_statement a b = False"

fun two_styles :: "sqlcall list \<Rightarrow> error option \<Rightarrow> bool" where
  "two_styles [c1] err = (style c1 = Positional \<and> outcome c1 = None \<and> err = None)"
| "two_styles [c1, c2] err =
     (style c1 = Positional \<and> outcome c1 \<noteq> None \<and> style c2 = Numbered \<and> same_statement c1 c2
      \<and> err = outcome c2)"
| "two_styles cs err = False"

definition retried_once :: "('d, sqlcall) world \<Rightarrow> error option \<Rightarrow> ('d, sqlcall) world \<Rightarrow> bool" where
  "retried_once w err w' =
     (take (length (trace w)) (trace w') = trace w
      \<and> two_styles (drop (length (trace w)) (trace w')) err)"

text \<open>
  A database that can be reached with an \<open>UPDATE\<close> of store.go: the context is live,
  the connection is up, and the dialect takes the positional spelling, or the numbered
  one with its \<open>NOW()\<close>.
\<close>

definition answers_update :: "engine \<Rightarrow> Context \<Rightarrow> bool" where
  "answers_update d ctx =
     (ctx_err ctx = None \<and> outage d = None
      \<and> (parses d Positional \<or> (parses d Numbered \<and> has_NOW d)))"

text \<open>A stored tuple that meets the schema, and the destinations \<open>Scan\<close> fills from it.\<close>

definition well_formed :: "tuple \<Rightarrow> bool" where
  "well_formed r = list_all (\<lambda>c. well_typed c (r c)) all_columns"

fun text_of :: "sqlval \<Rightarrow> string" where
  "text_of (Text s) = s"
| "text_of v = []"

fun opt_text :: "sqlval \<Rightarrow> string option" where
  "opt_text (Text s) = Some s"
| "opt_text v = None"

fun time_of :: "sqlval \<Rightarrow> time" where
  "time_of (Timestamp t) = t"
| "time_of v = 0"

fun opt_time :: "sqlval \<Rightarrow> time option" where
  "opt_time (Timestamp t) = Some t"
| "opt_time v = None"

definition row_of_tuple :: "tuple \<Rightarrow> Row" where
  "row_of_tuple r =
     \<lparr>row_id = text_of (r col_id), row_type = text_of (r col_type), row_queue = text_of (r col_queue),
      row_payload_json = text_of (r col_payload_json), row_status = text_of (r col_status),
      row_error_msg = opt_text (r col_error_msg), row_result_json = opt_text (r col_result_json),
      row_created_at = time_of (r col_created_at), row_enqueued_at = opt_time (r col_enqueued_at),
      row_started_at = opt_time (r col_started_at), row_finished_at = opt_time (r col_finished_at)\<rparr>"

text \<open>The tuple an \<open>INSERT\<close> of \<open>InsertCreated\<close> stores, and the record \<open>Enqueue\<close> builds.\<close>

definition inserted :: "string \<Rightarrow> string \<Rightarrow> string \<Rightarrow> string \<Rightarrow> string \<Rightarrow> time \<Rightarrow> tuple" where
  "inserted i ty qu pl st t =
     assign (zip insert_columns [Text i, Text ty, Text qu, Text pl, Text st, Timestamp t]) (\<lambda>c. Null)"

definition created_record :: "string \<Rightarrow> string \<Rightarrow> TaskInfo \<Rightarrow> time \<Rightarrow> time \<Rightarrow> TaskRecord" where
  "created_record taskType payloadBytes info createdAt enqueuedAt =
     \<lparr>ID = TaskInfo_ID info, Type = taskType, Queue = TaskInfo_Queue info,
      PayloadJSON = payloadBytes, Status = StatusCreated, ErrorMsg = None, ResultJSON = None,
      CreatedAt = createdAt, EnqueuedAt = enqueuedAt, StartedAt = None, FinishedAt = None\<rparr>"

section \<open>Collaborators and inputs for the examples\<close>

text \<open>
  The queue library merges the options of a submission from left to right; in the
  words of its documentation of \<open>Enqueue\<close>, "if there are conflicting Option values the
  last one overrides others". A submission with no queue option goes to \<open>default\<close>.
  \<open>memory_queue\<close> is a producer handle that follows this rule and keeps the submitted
  tasks, each under its queue; it refuses a submission under a context that is done.
\<close>

definition composeOptions_queue :: "asynq_Option list \<Rightarrow> string" where
  "composeOptions_queue opts =
     fold (\<lambda>opt q. case opt of asynq_Queue name \<Rightarrow> name | other \<Rightarrow> q) opts ''default''"

definition memory_queue :: "((string \<times> Task) list) asynq_Client" where
  "memory_queue =
     \<lparr>EnqueueContext = (\<lambda>ctx t opts s.
        (case ctx_err ctx of
           Some e \<Rightarrow> (Inl e, s)
         | None \<Rightarrow>
             (Inr \<lparr>TaskInfo_ID = replicate (Suc (length s)) CHR ''#'',
                   TaskInfo_Queue = composeOptions_queue opts,
                   TaskInfo_Type = typename t, TaskInfo_Payload = payload t\<rparr>,
              s @ [(composeOptions_queue opts, t)])))\<rparr>"

text \<open>
  A Store whose every call fails, a marshaller that refuses one payload, and two
  handlers, one that fails and one that succeeds.
\<close>

definition broken_Store :: "'s Store" where
  "broken_Store =
     \<lparr>InsertCreated = (\<lambda>ctx rec s. (Some (Error ''store down''), s)),
      MarkEnqueued = (\<lambda>ctx tid q t s. (Some (Error ''store down''), s)),
      MarkStarted = (\<lambda>ctx tid t s. (Some (Error ''store down''), s)),
      MarkCompleted = (\<lambda>ctx tid res t s. (Some (Error ''store down''), s)),
      MarkFailed = (\<lambda>ctx tid msg t s. (Some (Error ''store down''), s)),
      GetByID = (\<lambda>ctx tid s. (Inl (Error ''store down''), s))\<rparr>"

fun demo_Marshal :: "string option \<Rightarrow> error + string" where
  "demo_Marshal (Some s) = Inr s"
| "demo_Marshal None = Inl (Error ''json: unsupported type'')"

definition boom :: "'s Handler" where
  "boom ctx t s = (Some (Error ''boom''), s)"

definition quiet :: "'s Handler" where
  "quiet ctx t s = (None, s)"

definition live :: Context where
  "live = \<lparr>task_id = None, ctx_err = None\<rparr>"

definition cancelled :: Context where
  "cancelled = \<lparr>task_id = None, ctx_err = Some (Error ''context canceled'')\<rparr>"

definition running :: Context where
  "running = \<lparr>task_id = Some ''task-7'', ctx_err = None\<rparr>"

definition wall_clock :: "nat \<Rightarrow> time" where
  "wall_clock n = 1700000000 + int n"

definition start :: "'s \<Rightarrow> ('s, 'e) world" where
  "start s = \<lparr>ext = s, readings = wall_clock, ticks = 0, trace = []\<rparr>"

text \<open>An empty table behind a dialect that parses only numbered placeholders, and the same with one task stored.\<close>

definition postgres :: engine where
  "postgres =
     \<lparr>rows = (\<lambda>k. None), parses = (\<lambda>p. p = Numbered), has_NOW = True, server_time = 1700000500,
      outage = None\<rparr>"

definition postgres_with_task :: engine where
  "postgres_with_task =
     postgres\<lparr>rows := (\<lambda>k. None)(''task-7'' :=
        Some (inserted ''task-7'' ''email:deliver'' ''default'' ''{}'' ''created'' 1699999999))\<rparr>"

definition welcome_task :: TaskRecord where
  "welcome_task =
     \<lparr>ID = ''task-7'', Type = ''email:deliver'', Queue = ''default'', PayloadJSON = ''{}'',
      Status = ''failed'', ErrorMsg = None, ResultJSON = None, CreatedAt = 5, EnqueuedAt = 6,
      StartedAt = None, FinishedAt = None\<rparr>"

definition engine_store :: "engine SQLStore" where
  "engine_store = NewSQLStore (Some engine_DB)"

definition low_client :: "((string \<times> Task) list) Client" where
  "low_client = NewClient memory_queue (Some broken_Store) \<lparr>ClientOptions_Queue = ''low''\<rparr>"

definition broken_processor :: "('s, unit) Processor" where
  "broken_processor = \<lparr>server = (), store = Some broken_Store\<rparr>"

section \<open>Auxiliary facts\<close>

lemmas store_defs =
  SQLStore_InsertCreated_def SQLStore_MarkEnqueued_def SQLStore_MarkStarted_def
  SQLStore_MarkCompleted_def SQLStore_MarkFailed_def SQLStore_GetByID_def

lemmas engine_defs =
  engine_DB_def engine_exec_def engine_query_def refused_def db_ExecContext_def
  db_QueryRowContext_def

lemmas call_defs =
  client_EnqueueContext_def store_InsertCreated_def store_MarkEnqueued_def
  store_MarkStarted_def store_MarkCompleted_def store_MarkFailed_def handler_ProcessTask_def

lemmas example_defs =
  engine_store_def NewSQLStore_def live_def cancelled_def running_def start_def wall_clock_def
  postgres_def postgres_with_task_def welcome_task_def inserted_def

lemma well_typed_nullable [simp]: "well_typed col_result_json (nullable r)"
  by (cases r) simp_all

lemma same_args_refl [simp]: "same_args xs xs"
  by (simp add: same_args_def list_all2_same)

subsection \<open>The two attempts of each operation\<close>

lemma InsertCreated_retried:
  "db s = Some h \<Longrightarrow> (case SQLStore_InsertCreated s ctx rec w of (err, w') \<Rightarrow> retried_once w err w')"
  by (auto simp: SQLStore_InsertCreated_def retried_once_def db_ExecContext_def time_Now_def
      same_args_def split: prod.splits sum.splits)

lemma MarkEnqueued_retried:
  "db s = Some h \<Longrightarrow>
   (case SQLStore_MarkEnqueued s ctx tid q t w of (err, w') \<Rightarrow> retried_once w err w')"
  by (auto simp: SQLStore_MarkEnqueued_def retried_once_def db_ExecContext_def
      split: prod.splits sum.splits)

lemma MarkStarted_retried:
  "db s = Some h \<Longrightarrow>
   (case SQLStore_MarkStarted s ctx tid t w of (err, w') \<Rightarrow> retried_once w err w')"
  by (auto simp: SQLStore_MarkStarted_def retried_once_def db_ExecContext_def
      split: prod.splits sum.splits)

lemma MarkCompleted_retried:
  "db s = Some h \<Longrightarrow>
   (case SQLStore_MarkCompleted s ctx tid res t w of (err, w') \<Rightarrow> retried_once w err w')"
  by (auto simp: SQLStore_MarkCompleted_def retried_once_def db_ExecContext_def
      split: prod.splits sum.splits)

lemma MarkFailed_retried:
  "db s = Some h \<Longrightarrow>
   (case SQLStore_MarkFailed s ctx tid msg t w of (err, w') \<Rightarrow> retried_once w err w')"
  by (auto simp: SQLStore_MarkFailed_def retried_once_def db_ExecContext_def
      split: prod.splits sum.splits)

lemma GetByID_retried:
  "db s = Some h \<Longrightarrow>
   (case SQLStore_GetByID s ctx tid w of (r, w') \<Rightarrow> retried_once w (failure r) w')"
  by (auto simp: SQLStore_GetByID_def retried_once_def db_QueryRowContext_def
      split: prod.splits sum.splits)

subsection \<open>The reference engine\<close>

lemma refused_None:
  "refused d ctx p q = None \<Longrightarrow> ctx_err ctx = None \<and> outage d = None \<and> parses d p"
  by (auto simp: refused_def split: option.splits if_splits)

lemma to_string_text:
  "column_type c = TEXT \<Longrightarrow> not_null c \<Longrightarrow> well_typed c v \<Longrightarrow> to_string v = Inr (text_of v)"
  by (cases v) auto

lemma to_NullString_text:
  "column_type c = TEXT \<Longrightarrow> well_typed c v \<Longrightarrow> to_NullString v = Inr (opt_text v)"
  by (cases v) auto

lemma to_Time_datetime:
  "column_type c = DATETIME \<Longrightarrow> not_null c \<Longrightarrow> well_typed c v \<Longrightarrow> to_Time v = Inr (time_of v)"
  by (cases v) auto

lemma to_NullTime_datetime:
  "column_type c = DATETIME \<Longrightarrow> well_typed c v \<Longrightarrow> to_NullTime v = Inr (opt_time v)"
  by (cases v) auto

lemma Scan_well_formed:
  assumes "well_formed r"
  shows "Scan (map r select_columns) = Inr (row_of_tuple r)"
proof -
  have wt: "well_typed c (r c)" for c
    using assms by (cases c) (simp_all add: well_formed_def all_columns_def)
  have strings:
    "to_string (r col_id) = Inr (text_of (r col_id))"
    "to_string (r col_type) = Inr (text_of (r col_type))"
    "to_string (r col_queue) = Inr (text_of (r col_queue))"
    "to_string (r col_payload_json) = Inr (text_of (r col_payload_json))"
    "to_string (r col_status) = Inr (text_of (r col_status))"
    by (rule to_string_text [OF _ _ wt]; simp)+
  have null_strings:
    "to_NullString (r col_error_msg) = Inr (opt_text (r col_error_msg))"
    "to_NullString (r col_result_json) = Inr (opt_text (r col_result_json))"
    by (rule to_NullString_text [OF _ wt]; simp)+
  have created: "to_Time (r col_created_at) = Inr (time_of (r col_created_at))"
    by (rule to_Time_datetime [OF _ _ wt]; simp)
  have null_times:
    "to_NullTime (r col_enqueued_at) = Inr (opt_time (r col_enqueued_at))"
    "to_NullTime (r col_started_at) = Inr (opt_time (r col_started_at))"
    "to_NullTime (r col_finished_at) = Inr (opt_time (r col_finished_at))"
    by (rule to_NullTime_datetime [OF _ wt]; simp)+
  show ?thesis
    by (simp add: select_columns_def and_then_def row_of_tuple_def strings null_strings created
        null_times)
qed

lemma GetByID_engine:
  assumes "db s = Some engine_DB" and "rows (ext w) tid = Some r" and "well_formed r"
    and "ctx_err ctx = None" and "outage (ext w) = None"
    and "parses (ext w) Positional \<or> parses (ext w) Numbered"
  shows "fst (SQLStore_GetByID s ctx tid w) = Inr (record_of_row (row_of_tuple r))"
  using assms by (auto simp: SQLStore_GetByID_def engine_defs Scan_well_formed)

lemma inserted_well_formed: "well_formed (inserted i ty qu pl st t)"
  by (simp add: inserted_def well_formed_def assign_def insert_columns_def all_columns_def)

lemma inserted_columns:
  "inserted i ty qu pl st t col_id = Text i"
  "inserted i ty qu pl st t col_type = Text ty"
  "inserted i ty qu pl st t col_queue = Text qu"
  "inserted i ty qu pl st t col_payload_json = Text pl"
  "inserted i ty qu pl st t col_status = Text st"
  "inserted i ty qu pl st t col_created_at = Timestamp t"
  by (simp_all add: inserted_def assign_def insert_columns_def)

lemma engine_insert:
  "engine_exec ctx p (INSERT insert_columns)
     [Text i, Text ty, Text qu, Text pl, Text st, Timestamp t] d =
     (case refused d ctx p (INSERT insert_columns) of
        Some err \<Rightarrow> (Inl err, d)
      | None \<Rightarrow>
          (case rows d i of
             Some old \<Rightarrow> (Inl (Error ''duplicate key''), d)
           | None \<Rightarrow> (Inr 1, d\<lparr>rows := (rows d)(i := Some (inserted i ty qu pl st t))\<rparr>)))"
proof -
  have shape: "length [Text i, Text ty, Text qu, Text pl, Text st, Timestamp t] = length insert_columns"
    "distinct insert_columns"
    by (simp_all add: insert_columns_def)
  show ?thesis
    unfolding engine_exec_def run_exec.simps Let_def inserted_def [symmetric]
    using inserted_well_formed [of i ty qu pl st t, unfolded well_formed_def]
    by (simp only: shape inserted_columns) (simp split: option.splits)
qed

lemma InsertCreated_engine:
  assumes "db s = Some engine_DB" and "SQLStore_InsertCreated s ctx rec w = (None, w')"
  shows "ticks w < ticks w' \<and> outage (ext w') = None
     \<and> (parses (ext w') Positional \<or> parses (ext w') Numbered)
     \<and> rows (ext w') (ID rec) =
         Some (inserted (ID rec) (Type rec) (Queue rec) (PayloadJSON rec) StatusCreated
                 (readings w (ticks w' - 1)))"
proof (cases "refused (ext w) ctx Positional (INSERT insert_columns) = None
              \<and> rows (ext w) (ID rec) = None")
  case True
  then show ?thesis
    using assms refused_None [of "ext w" ctx Positional "INSERT insert_columns"]
    by (auto simp: SQLStore_InsertCreated_def engine_DB_def db_ExecContext_def engine_insert
        time_Now_def UTC_def)
next
  case False
  then have "\<exists>e. engine_exec ctx Positional (INSERT insert_columns)
      [Text (ID rec), Text (Type rec), Text (Queue rec), Text (PayloadJSON rec), Text StatusCreated,
       Timestamp (readings w (ticks w))] (ext w) = (Inl e, ext w)"
    by (auto simp: engine_insert split: option.splits)
  then obtain e where first: "engine_exec ctx Positional (INSERT insert_columns)
      [Text (ID rec), Text (Type rec), Text (Queue rec), Text (PayloadJSON rec), Text StatusCreated,
       Timestamp (readings w (ticks w))] (ext w) = (Inl e, ext w)" ..
  show ?thesis
    using assms first refused_None [of "ext w" ctx Numbered "INSERT insert_columns"]
    by (auto simp: SQLStore_InsertCreated_def engine_DB_def db_ExecContext_def time_Now_def UTC_def
        engine_insert [where p = Numbered] split: option.splits)
qed

lemma MarkEnqueued_engine:
  assumes "db s = Some engine_DB" and "rows (ext w) tid = Some r" and "answers_update (ext w) ctx"
  shows "fst (SQLStore_MarkEnqueued s ctx tid q t w) = None
     \<and> rows (ext (snd (SQLStore_MarkEnqueued s ctx tid q t w))) tid =
         Some (r(col_status := Text StatusCreated, col_queue := Text q,
                 col_enqueued_at := Timestamp t,
                 col_updated_at := Timestamp (server_time (ext w))))
     \<and> outage (ext (snd (SQLStore_MarkEnqueued s ctx tid q t w))) = None
     \<and> parses (ext (snd (SQLStore_MarkEnqueued s ctx tid q t w))) = parses (ext w)"
  using assms
  by (auto simp: SQLStore_MarkEnqueued_def engine_defs answers_update_def assign_def UTC_def)

lemma enqueued_well_formed:
  "well_formed r \<Longrightarrow>
   well_formed (r(col_status := Text st, col_queue := Text q, col_enqueued_at := Timestamp t,
                  col_updated_at := Timestamp u))"
  by (simp add: well_formed_def all_columns_def)

lemma composeOptions_queue_last: "composeOptions_queue (opts @ [asynq_Queue q]) = q"
  by (simp add: composeOptions_queue_def)

section \<open>The SQL store\<close>

text \<open>
  Claim C10. A store built on a nil database handle fails every one of its six
  operations with an error and leaves the world as it was: no statement is sent and
  the clock is not read. \<open>GetByID\<close> returns no record beside its error.
\<close>

theorem nil_db_every_operation_fails:
  "SQLStore_InsertCreated (NewSQLStore None) ctx rec w = (Some (Error ''nil db''), w) \<and>
   SQLStore_MarkEnqueued (NewSQLStore None) ctx tid q t w = (Some (Error ''nil db''), w) \<and>
   SQLStore_MarkStarted (NewSQLStore None) ctx tid t w = (Some (Error ''nil db''), w) \<and>
   SQLStore_MarkCompleted (NewSQLStore None) ctx tid res t w = (Some (Error ''nil db''), w) \<and>
   SQLStore_MarkFailed (NewSQLStore None) ctx tid msg t w = (Some (Error ''nil db''), w) \<and>
   SQLStore_GetByID (NewSQLStore None) ctx tid w = (Inl (Error ''nil db''), w)"
  by (simp add: NewSQLStore_def store_defs)

text \<open>
  Claim C5. With a database handle, whatever the driver behind it does, each of the
  six operations sends its statement with positional placeholders first; if that call
  succeeds nothing more is sent and the operation succeeds; if it fails, for whatever
  reason, the same statement is sent exactly once more with numbered placeholders and
  the operation returns what that second call returned, its error or its success.
\<close>

theorem SQLStore_tries_both_placeholder_styles:
  assumes "db s = Some h"
  shows "(case SQLStore_InsertCreated s ctx rec w of (err, w') \<Rightarrow> retried_once w err w') \<and>
         (case SQLStore_MarkEnqueued s ctx tid q t w of (err, w') \<Rightarrow> retried_once w err w') \<and>
         (case SQLStore_MarkStarted s ctx tid t w of (err, w') \<Rightarrow> retried_once w err w') \<and>
         (case SQLStore_MarkCompleted s ctx tid res t w of (err, w') \<Rightarrow> retried_once w err w') \<and>
         (case SQLStore_MarkFailed s ctx tid msg t w of (err, w') \<Rightarrow> retried_once w err w') \<and>
         (case SQLStore_GetByID s ctx tid w of (r, w') \<Rightarrow> retried_once w (failure r) w')"
  by (intro conjI InsertCreated_retried [OF assms] MarkEnqueued_retried [OF assms]
      MarkStarted_retried [OF assms] MarkCompleted_retried [OF assms]
      MarkFailed_retried [OF assms] GetByID_retried [OF assms])

theorem SQLStore_tries_both_placeholder_styles_witness:
  "db engine_store = Some engine_DB \<and>
   (case SQLStore_InsertCreated engine_store live welcome_task (start postgres) of
      (err, w') \<Rightarrow> retried_once (start postgres) err w' \<and> err = None \<and> length (trace w') = 2) \<and>
   (case SQLStore_GetByID engine_store live ''task-7'' (start postgres) of
      (r, w') \<Rightarrow> retried_once (start postgres) (failure r) w' \<and> r = Inl ErrNoRows)"
proof -
  have h: "db engine_store = Some engine_DB"
    by (simp add: example_defs)
  have run: "fst (SQLStore_InsertCreated engine_store live welcome_task (start postgres)) = None"
    "length (trace (snd (SQLStore_InsertCreated engine_store live welcome_task (start postgres)))) = 2"
    "fst (SQLStore_GetByID engine_store live ''task-7'' (start postgres)) = Inl ErrNoRows"
    by (simp_all add: example_defs store_defs engine_defs time_Now_def insert_columns_def
        all_columns_def assign_def)
  from SQLStore_tries_both_placeholder_styles
    [OF h, where ctx = live and rec = welcome_task and w = "start postgres" and tid = "''task-7''"]
  show ?thesis
    using h run by (auto split: prod.splits)
qed

text \<open>
  Claim C9. \<open>InsertCreated\<close> never reads the \<open>Status\<close> and \<open>CreatedAt\<close> of the record it
  is given: the call does the same with any other two values in them. On the reference
  engine the row a successful call leaves under the record's id has the status
  \<open>created\<close>, and as \<open>created_at\<close> the reading of the wall clock (\<open>time.Now()\<close> in the
  store) taken for the attempt that stored it.
\<close>

theorem InsertCreated_ignores_Status_and_CreatedAt:
  "SQLStore_InsertCreated s ctx (rec\<lparr>Status := st, CreatedAt := t\<rparr>) w
     = SQLStore_InsertCreated s ctx rec w \<and>
   (db s = Some engine_DB \<and> SQLStore_InsertCreated s ctx rec w = (None, w') \<longrightarrow>
      ticks w < ticks w' \<and>
      map_option (\<lambda>r. (r col_status, r col_created_at)) (rows (ext w') (ID rec))
        = Some (Text ''created'', Timestamp (readings w (ticks w' - 1))))"
proof
  show "SQLStore_InsertCreated s ctx (rec\<lparr>Status := st, CreatedAt := t\<rparr>) w
          = SQLStore_InsertCreated s ctx rec w"
    by (simp add: SQLStore_InsertCreated_def split: option.splits prod.splits sum.splits)
  show "db s = Some engine_DB \<and> SQLStore_InsertCreated s ctx rec w = (None, w') \<longrightarrow>
      ticks w < ticks w' \<and>
      map_option (\<lambda>r. (r col_status, r col_created_at)) (rows (ext w') (ID rec))
        = Some (Text ''created'', Timestamp (readings w (ticks w' - 1)))"
    using InsertCreated_engine [of s ctx rec w w']
    by (auto simp: inserted_columns StatusCreated_def)
qed

theorem InsertCreated_ignores_Status_and_CreatedAt_witness:
  "Status welcome_task = ''failed'' \<and> CreatedAt welcome_task = 5 \<and>
   db engine_store = Some engine_DB \<and>
   fst (SQLStore_InsertCreated engine_store live welcome_task (start postgres)) = None \<and>
   map_option (\<lambda>r. (r col_status, r col_created_at))
     (rows (ext (snd (SQLStore_InsertCreated engine_store live welcome_task (start postgres))))
        (ID welcome_task))
     = Some (Text ''created'', Timestamp (wall_clock 1))"
proof -
  have h: "db engine_store = Some engine_DB"
    by (simp add: example_defs)
  have run: "fst (SQLStore_InsertCreated engine_store live welcome_task (start postgres)) = None"
    "ticks (snd (SQLStore_InsertCreated engine_store live welcome_task (start postgres))) = 2"
    by (simp_all add: example_defs store_defs engine_defs time_Now_def insert_columns_def
        all_columns_def assign_def)
  have given: "Status welcome_task = ''failed''" "CreatedAt welcome_task = 5"
    by (simp_all add: welcome_task_def)
  have clock: "readings (start postgres :: (engine, sqlcall) world) = wall_clock"
    by (simp add: start_def)
  from InsertCreated_ignores_Status_and_CreatedAt
    [where s = engine_store and ctx = live and rec = welcome_task and w = "start postgres"
       and w' = "snd (SQLStore_InsertCreated engine_store live welcome_task (start postgres))"]
  show ?thesis
    using h run given clock by (simp add: prod_eq_iff)
qed

text \<open>
  Claim C6. On the reference engine, reached with a live context, no outage and a
  dialect that takes one of the two spellings, each of \<open>MarkEnqueued\<close>, \<open>MarkStarted\<close>,
  \<open>MarkCompleted\<close> and \<open>MarkFailed\<close> for an id that has no row returns the nil error
  and leaves the table as it was: an update of zero rows is a success.
\<close>

theorem Mark_without_row_succeeds:
  assumes "db s = Some engine_DB" and "rows (ext w) tid = None" and "answers_update (ext w) ctx"
  shows "fst (SQLStore_MarkEnqueued s ctx tid q t w) = None \<and>
         rows (ext (snd (SQLStore_MarkEnqueued s ctx tid q t w))) = rows (ext w) \<and>
         fst (SQLStore_MarkStarted s ctx tid t w) = None \<and>
         rows (ext (snd (SQLStore_MarkStarted s ctx tid t w))) = rows (ext w) \<and>
         fst (SQLStore_MarkCompleted s ctx tid res t w) = None \<and>
         rows (ext (snd (SQLStore_MarkCompleted s ctx tid res t w))) = rows (ext w) \<and>
         fst (SQLStore_MarkFailed s ctx tid msg t w) = None \<and>
         rows (ext (snd (SQLStore_MarkFailed s ctx tid msg t w))) = rows (ext w)"
  using assms by (auto simp: store_defs engine_defs answers_update_def)

theorem Mark_without_row_succeeds_witness:
  "db engine_store = Some engine_DB \<and>
   rows (ext (start postgres_with_task :: (engine, sqlcall) world)) ''task-8'' = None \<and>
   answers_update (ext (start postgres_with_task :: (engine, sqlcall) world)) live \<and>
   fst (SQLStore_MarkEnqueued engine_store live ''task-8'' ''default'' 7 (start postgres_with_task)) = None \<and>
   fst (SQLStore_MarkStarted engine_store live ''task-8'' 7 (start postgres_with_task)) = None \<and>
   fst (SQLStore_MarkCompleted engine_store live ''task-8'' None 7 (start postgres_with_task)) = None \<and>
   fst (SQLStore_MarkFailed engine_store live ''task-8'' ''boom'' 7 (start postgres_with_task)) = None"
proof -
  have h: "db engine_store = Some engine_DB"
    "rows (ext (start postgres_with_task :: (engine, sqlcall) world)) ''task-8'' = None"
    "answers_update (ext (start postgres_with_task :: (engine, sqlcall) world)) live"
    by (simp_all add: example_defs answers_update_def)
  from Mark_without_row_succeeds [OF h, of "''default''" 7 None "''boom''"]
  show ?thesis
    using h by simp
qed

text \<open>
  Claim C4. On the reference engine, after an \<open>InsertCreated\<close> of a record that
  returned the nil error, \<open>GetByID\<close> of the record's id under a live context returns a
  record with the same id, type, queue and payload, and the status \<open>created\<close>.
\<close>

theorem InsertCreated_then_GetByID:
  assumes "db s = Some engine_DB" and "SQLStore_InsertCreated s ctx rec w = (None, w1)"
    and "ctx_err ctx' = None"
  shows "\<exists>got w2. SQLStore_GetByID s ctx' (ID rec) w1 = (Inr got, w2) \<and>
           ID got = ID rec \<and> Type got = Type rec \<and> Queue got = Queue rec \<and>
           PayloadJSON got = PayloadJSON rec \<and> Status got = StatusCreated"
proof -
  let ?r = "inserted (ID rec) (Type rec) (Queue rec) (PayloadJSON rec) StatusCreated
              (readings w (ticks w1 - 1))"
  from InsertCreated_engine [OF assms(1,2)]
  have stored: "rows (ext w1) (ID rec) = Some ?r" and up: "outage (ext w1) = None"
    and dialect: "parses (ext w1) Positional \<or> parses (ext w1) Numbered"
    by simp_all
  define got where "got = record_of_row (row_of_tuple ?r)"
  have "fst (SQLStore_GetByID s ctx' (ID rec) w1) = Inr got"
    unfolding got_def
    by (rule GetByID_engine [OF assms(1) stored inserted_well_formed assms(3) up dialect])
  then have "SQLStore_GetByID s ctx' (ID rec) w1
      = (Inr got, snd (SQLStore_GetByID s ctx' (ID rec) w1))"
    by (simp add: prod_eq_iff)
  moreover have "ID got = ID rec \<and> Type got = Type rec \<and> Queue got = Queue rec \<and>
      PayloadJSON got = PayloadJSON rec \<and> Status got = StatusCreated"
    by (simp add: got_def record_of_row_def row_of_tuple_def inserted_columns)
  ultimately show ?thesis
    by blast
qed

theorem InsertCreated_then_GetByID_witness:
  "db engine_store = Some engine_DB \<and>
   fst (SQLStore_InsertCreated engine_store live welcome_task (start postgres)) = None \<and>
   ctx_err live = None \<and>
   (\<exists>got w2. SQLStore_GetByID engine_store live ''task-7''
                (snd (SQLStore_InsertCreated engine_store live welcome_task (start postgres)))
              = (Inr got, w2) \<and>
      ID got = ''task-7'' \<and> Type got = ''email:deliver'' \<and> Queue got = ''default'' \<and>
      PayloadJSON got = ''{}'' \<and> Status got = ''created'')"
proof -
  have h: "db engine_store = Some engine_DB"
    by (simp add: example_defs)
  have run: "fst (SQLStore_InsertCreated engine_store live welcome_task (start postgres)) = None"
    by (simp add: example_defs store_defs engine_defs time_Now_def insert_columns_def
        all_columns_def assign_def)
  then have ins: "SQLStore_InsertCreated engine_store live welcome_task (start postgres)
      = (None, snd (SQLStore_InsertCreated engine_store live welcome_task (start postgres)))"
    by (simp add: prod_eq_iff)
  have c: "ctx_err live = None"
    by (simp add: live_def)
  from InsertCreated_then_GetByID [OF h ins c]
  show ?thesis
    using h run c by (simp add: welcome_task_def StatusCreated_def)
qed

text \<open>
  Claim C8. On the reference engine, reached as in C6, \<open>MarkEnqueued\<close> of an id that
  has a row returns the nil error and leaves that row with the status \<open>created\<close>, the
  given queue and the given time as \<open>enqueued_at\<close>; \<open>GetByID\<close> of the id under a live
  context then returns a record with that queue, that \<open>EnqueuedAt\<close> and the status
  \<open>created\<close>. The row is one that meets the schema, as every row the engine stores does.
\<close>

theorem MarkEnqueued_then_GetByID:
  assumes "db s = Some engine_DB" and "rows (ext w) tid = Some r" and "well_formed r"
    and "answers_update (ext w) ctx" and "ctx_err ctx' = None"
    and "SQLStore_MarkEnqueued s ctx tid q t w = (err, w1)"
  shows "err = None \<and>
         map_option (\<lambda>r1. (r1 col_status, r1 col_queue, r1 col_enqueued_at)) (rows (ext w1) tid)
           = Some (Text StatusCreated, Text q, Timestamp t) \<and>
         (\<exists>got w2. SQLStore_GetByID s ctx' tid w1 = (Inr got, w2) \<and>
            EnqueuedAt got = t \<and> Queue got = q \<and> Status got = StatusCreated)"
proof -
  let ?r1 = "r(col_status := Text StatusCreated, col_queue := Text q,
               col_enqueued_at := Timestamp t, col_updated_at := Timestamp (server_time (ext w)))"
  from MarkEnqueued_engine [OF assms(1,2,4), of q t] assms(6)
  have ok: "err = None" and stored: "rows (ext w1) tid = Some ?r1"
    and up: "outage (ext w1) = None" and same: "parses (ext w1) = parses (ext w)"
    by simp_all
  have dialect: "parses (ext w1) Positional \<or> parses (ext w1) Numbered"
    using assms(4) same by (auto simp: answers_update_def)
  define got where "got = record_of_row (row_of_tuple ?r1)"
  have "fst (SQLStore_GetByID s ctx' tid w1) = Inr got"
    unfolding got_def
    by (rule GetByID_engine [OF assms(1) stored enqueued_well_formed [OF assms(3)] assms(5) up dialect])
  then have "SQLStore_GetByID s ctx' tid w1 = (Inr got, snd (SQLStore_GetByID s ctx' tid w1))"
    by (simp add: prod_eq_iff)
  moreover have "EnqueuedAt got = t \<and> Queue got = q \<and> Status got = StatusCreated"
    by (simp add: got_def record_of_row_def row_of_tuple_def)
  ultimately have "\<exists>got w2. SQLStore_GetByID s ctx' tid w1 = (Inr got, w2) \<and>
      EnqueuedAt got = t \<and> Queue got = q \<and> Status got = StatusCreated"
    by blast
  then show ?thesis
    using ok stored by simp
qed

theorem MarkEnqueued_then_GetByID_witness:
  "db engine_store = Some engine_DB \<and>
   answers_update (ext (start postgres_with_task :: (engine, sqlcall) world)) live \<and>
   ctx_err live = None \<and>
   fst (SQLStore_MarkEnqueued engine_store live ''task-7'' ''critical'' 1700000100
          (start postgres_with_task)) = None \<and>
   (\<exists>got w2. SQLStore_GetByID engine_store live ''task-7''
                (snd (SQLStore_MarkEnqueued engine_store live ''task-7'' ''critical'' 1700000100
                        (start postgres_with_task)))
              = (Inr got, w2) \<and>
      EnqueuedAt got = 1700000100 \<and> Queue got = ''critical'' \<and> Status got = ''created'')"
proof -
  let ?r = "inserted ''task-7'' ''email:deliver'' ''default'' ''{}'' ''created'' 1699999999"
  have h: "db engine_store = Some engine_DB"
    by (simp add: example_defs)
  have row: "rows (ext (start postgres_with_task :: (engine, sqlcall) world)) ''task-7'' = Some ?r"
    by (simp add: start_def postgres_with_task_def)
  have up: "answers_update (ext (start postgres_with_task :: (engine, sqlcall) world)) live"
    by (simp add: example_defs answers_update_def)
  have c: "ctx_err live = None"
    by (simp add: live_def)
  have run: "SQLStore_MarkEnqueued engine_store live ''task-7'' ''critical'' 1700000100
               (start postgres_with_task)
      = (fst (SQLStore_MarkEnqueued engine_store live ''task-7'' ''critical'' 1700000100
               (start postgres_with_task)),
         snd (SQLStore_MarkEnqueued engine_store live ''task-7'' ''critical'' 1700000100
               (start postgres_with_task)))"
    by simp
  from MarkEnqueued_then_GetByID [OF h row inserted_well_formed up c run]
  show ?thesis
    using h up c by (simp add: StatusCreated_def)
qed

section \<open>The enqueue client\<close>

text \<open>
  Claim C1. The claim does not hold of the code: \<open>Enqueue\<close> puts the Client's own queue
  after the caller's options, and the queue library lets the last queue option win. A
  Client configured with the queue \<open>low\<close>, asked to enqueue with the option
  \<open>asynq.Queue("critical")\<close>, submits the options \<open>[Queue critical, Queue low]\<close>; the
  acknowledgment names the queue \<open>low\<close> and the task is kept under \<open>low\<close>.
\<close>

theorem Enqueue_client_queue_replaces_callers_queue:
  "(case Enqueue demo_Marshal (NewClient memory_queue None \<lparr>ClientOptions_Queue = ''low''\<rparr>) live
           ''email:deliver'' (Some ''{}'') [asynq_Queue ''critical''] (start []) of
      (r, w) \<Rightarrow> (map_sum id TaskInfo_Queue r, trace w, ext w))
   = (Inr ''low'',
      [Submitted (NewTask ''email:deliver'' ''{}'') [asynq_Queue ''critical'', asynq_Queue ''low'']],
      [(''low'', NewTask ''email:deliver'' ''{}'')])"
  by (simp add: Enqueue_def NewClient_def memory_queue_def live_def start_def call_defs
      time_Now_def composeOptions_queue_def Let_def)

text \<open>
  Claim C2. With a queue handle and a Store, a payload that serializes and a submission
  the queue system accepts, \<open>Enqueue\<close> returns the queue system's acknowledgment and no
  error whatever the Store's \<open>InsertCreated\<close> and \<open>MarkEnqueued\<close> return, their errors
  included; and it calls exactly these two, in this order, after the submission: first
  \<open>InsertCreated\<close> with the record built from the acknowledgment, then \<open>MarkEnqueued\<close>
  with the acknowledged id and queue.
\<close>

theorem Enqueue_swallows_store_errors:
  assumes "client c = Some cl" and "Client.store c = Some st"
    and "json_Marshal pl = Inr payloadBytes"
    and "EnqueueContext cl ctx (NewTask taskType payloadBytes)
           (options @ [asynq_Queue (queue c)]) (ext w) = (Inr info, s1)"
  shows "fst (Enqueue json_Marshal c ctx taskType pl options w) = Inr info \<and>
         trace (snd (Enqueue json_Marshal c ctx taskType pl options w)) =
           trace w @
           [Submitted (NewTask taskType payloadBytes) (options @ [asynq_Queue (queue c)]),
            Called_InsertCreated
              (created_record taskType payloadBytes info (readings w (ticks w))
                 (readings w (ticks w + 1))),
            Called_MarkEnqueued (TaskInfo_ID info) (TaskInfo_Queue info) (readings w (ticks w + 2))]"
  using assms
  by (simp add: Enqueue_def call_defs time_Now_def UTC_def created_record_def Let_def
      split: prod.splits)

theorem Enqueue_swallows_store_errors_witness:
  "client low_client = Some memory_queue \<and> Client.store low_client = Some broken_Store \<and>
   fst (InsertCreated broken_Store live welcome_task []) = Some (Error ''store down'') \<and>
   fst (MarkEnqueued broken_Store live ''#'' ''low'' 7 []) = Some (Error ''store down'') \<and>
   fst (Enqueue demo_Marshal low_client live ''email:deliver'' (Some ''{}'') [] (start []))
     = Inr \<lparr>TaskInfo_ID = ''#'', TaskInfo_Queue = ''low'', TaskInfo_Type = ''email:deliver'',
            TaskInfo_Payload = ''{}''\<rparr> \<and>
   length (trace (snd (Enqueue demo_Marshal low_client live ''email:deliver'' (Some ''{}'') []
                         (start [])))) = 3"
proof -
  let ?info = "\<lparr>TaskInfo_ID = ''#'', TaskInfo_Queue = ''low'', TaskInfo_Type = ''email:deliver'',
                 TaskInfo_Payload = ''{}''\<rparr>"
  have c: "client low_client = Some memory_queue" "Client.store low_client = Some broken_Store"
    "queue low_client = ''low''"
    by (simp_all add: low_client_def NewClient_def)
  have st: "fst (InsertCreated broken_Store live welcome_task []) = Some (Error ''store down'')"
    "fst (MarkEnqueued broken_Store live ''#'' ''low'' 7 []) = Some (Error ''store down'')"
    by (simp_all add: broken_Store_def)
  have m: "demo_Marshal (Some ''{}'') = Inr ''{}''"
    by simp
  have sub: "EnqueueContext memory_queue live (NewTask ''email:deliver'' ''{}'')
               ([] @ [asynq_Queue (queue low_client)])
               (ext (start [] :: ((string \<times> Task) list, event) world))
             = (Inr ?info, [(''low'', NewTask ''email:deliver'' ''{}'')])"
    by (simp add: c memory_queue_def live_def start_def composeOptions_queue_def NewTask_def)
  from Enqueue_swallows_store_errors
         [where json_Marshal = demo_Marshal and pl = "Some ''{}''", OF c(1,2) m sub]
  show ?thesis
    using c st by (simp add: start_def)
qed

text \<open>
  Claim C7. With a queue handle: if the payload does not serialize, \<open>Enqueue\<close> returns
  the serialization error and leaves the world as it was, nothing submitted and no
  Store call made; if the payload serializes and the queue system refuses the
  submission, \<open>Enqueue\<close> returns the queue system's error, and the submission is the
  only call it has made: no \<open>InsertCreated\<close>, no \<open>MarkEnqueued\<close>, the clock not read.
\<close>

theorem Enqueue_failure_writes_nothing:
  assumes "client c = Some cl"
  shows "(json_Marshal pl = Inl err \<longrightarrow>
            Enqueue json_Marshal c ctx taskType pl options w = (Inl err, w)) \<and>
         (json_Marshal pl = Inr payloadBytes \<and>
          EnqueueContext cl ctx (NewTask taskType payloadBytes)
            (options @ [asynq_Queue (queue c)]) (ext w) = (Inl err, s') \<longrightarrow>
            Enqueue json_Marshal c ctx taskType pl options w
              = (Inl err,
                 w\<lparr>ext := s',
                   trace := trace w @
                     [Submitted (NewTask taskType payloadBytes)
                        (options @ [asynq_Queue (queue c)])]\<rparr>))"
  using assms by (simp add: Enqueue_def call_defs Let_def)

theorem Enqueue_failure_writes_nothing_witness:
  "client low_client = Some memory_queue \<and> Client.store low_client = Some broken_Store \<and>
   demo_Marshal None = Inl (Error ''json: unsupported type'') \<and>
   Enqueue demo_Marshal low_client live ''email:deliver'' None [] (start [])
     = (Inl (Error ''json: unsupported type''), start []) \<and>
   demo_Marshal (Some ''{}'') = Inr ''{}'' \<and>
   Enqueue demo_Marshal low_client cancelled ''email:deliver'' (Some ''{}'') [] (start [])
     = (Inl (Error ''context canceled''),
        (start [])\<lparr>trace := [Submitted (NewTask ''email:deliver'' ''{}'') [asynq_Queue ''low'']]\<rparr>)"
proof -
  have c: "client low_client = Some memory_queue" "Client.store low_client = Some broken_Store"
    "queue low_client = ''low''"
    by (simp_all add: low_client_def NewClient_def)
  have m: "demo_Marshal None = Inl (Error ''json: unsupported type'')"
    "demo_Marshal (Some ''{}'') = Inr ''{}''"
    by simp_all
  have sub: "EnqueueContext memory_queue cancelled (NewTask ''email:deliver'' ''{}'')
               ([] @ [asynq_Queue (queue low_client)])
               (ext (start [] :: ((string \<times> Task) list, event) world))
             = (Inl (Error ''context canceled''), [])"
    by (simp add: memory_queue_def cancelled_def start_def)
  from Enqueue_failure_writes_nothing
         [where json_Marshal = demo_Marshal and pl = None
            and err = "Error ''json: unsupported type''" and ctx = live
            and taskType = "''email:deliver''" and options = "[]" and w = "start []",
          OF c(1)]
       Enqueue_failure_writes_nothing
         [where json_Marshal = demo_Marshal and pl = "Some ''{}''" and payloadBytes = "''{}''"
            and err = "Error ''context canceled''" and ctx = cancelled
            and taskType = "''email:deliver''" and options = "[]" and w = "start []"
            and s' = "[]",
          OF c(1)]
  show ?thesis
    using c m sub by (simp add: start_def)
qed

section \<open>The processor's middleware\<close>

text \<open>
  Claim C3. For a Processor with a Store and a context that carries a task id, the
  handler the middleware returns calls \<open>MarkStarted\<close> for that id, then the wrapped
  handler, then \<open>MarkFailed\<close> with the message of the handler's error if it returned
  one and \<open>MarkCompleted\<close> with no result otherwise, and nothing else; it returns what
  the wrapped handler returned, whatever the three Store calls return.
\<close>

theorem lifecycleMiddleware_tracks_and_passes_outcome:
  assumes "Processor.store p = Some st" and "GetTaskID ctx = Some tid"
    and "MarkStarted st ctx tid (readings w (ticks w)) (ext w) = (e1, s1)"
    and "next ctx t s1 = (err, s2)"
  shows "fst (lifecycleMiddleware p next ctx t w) = err \<and>
         trace (snd (lifecycleMiddleware p next ctx t w)) =
           trace w @
           [Called_MarkStarted tid (readings w (ticks w)),
            Handled ctx t,
            (case err of
               Some e \<Rightarrow> Called_MarkFailed tid (Error_msg e) (readings w (ticks w + 1))
             | None \<Rightarrow> Called_MarkCompleted tid None (readings w (ticks w + 1)))]"
  using assms
  by (simp add: lifecycleMiddleware_def call_defs time_Now_def UTC_def Let_def
      split: prod.splits option.splits)

theorem lifecycleMiddleware_tracks_and_passes_outcome_witness:
  "Processor.store (broken_processor :: (unit, unit) Processor) = Some broken_Store \<and>
   GetTaskID running = Some ''task-7'' \<and>
   lifecycleMiddleware broken_processor boom running (NewTask ''email:deliver'' ''{}'') (start ())
     = (Some (Error ''boom''),
        (start ())\<lparr>ticks := 2,
          trace := [Called_MarkStarted ''task-7'' (wall_clock 0),
                    Handled running (NewTask ''email:deliver'' ''{}''),
                    Called_MarkFailed ''task-7'' ''boom'' (wall_clock 1)]\<rparr>) \<and>
   lifecycleMiddleware broken_processor quiet running (NewTask ''email:deliver'' ''{}'') (start ())
     = (None,
        (start ())\<lparr>ticks := 2,
          trace := [Called_MarkStarted ''task-7'' (wall_clock 0),
                    Handled running (NewTask ''email:deliver'' ''{}''),
                    Called_MarkCompleted ''task-7'' None (wall_clock 1)]\<rparr>)"
proof -
  have p: "Processor.store (broken_processor :: (unit, unit) Processor) = Some broken_Store"
    "GetTaskID running = Some ''task-7''"
    by (simp_all add: broken_processor_def GetTaskID_def running_def)
  have started: "MarkStarted broken_Store running ''task-7''
                   (readings (start () :: (unit, event) world) (ticks (start () :: (unit, event) world)))
                   (ext (start () :: (unit, event) world))
                 = (Some (Error ''store down''), ())"
    by (simp add: broken_Store_def)
  have handled: "boom running (NewTask ''email:deliver'' ''{}'') () = (Some (Error ''boom''), ())"
    "quiet running (NewTask ''email:deliver'' ''{}'') () = (None, ())"
    by (simp_all add: boom_def quiet_def)
  have rest: "snd (lifecycleMiddleware broken_processor boom running
                     (NewTask ''email:deliver'' ''{}'') (start ()))
              = (start ())\<lparr>ticks := 2, trace := trace (snd (lifecycleMiddleware broken_processor
                   boom running (NewTask ''email:deliver'' ''{}'') (start ())))\<rparr>"
    "snd (lifecycleMiddleware broken_processor quiet running
                     (NewTask ''email:deliver'' ''{}'') (start ()))
              = (start ())\<lparr>ticks := 2, trace := trace (snd (lifecycleMiddleware broken_processor
                   quiet running (NewTask ''email:deliver'' ''{}'') (start ())))\<rparr>"
    by (simp_all add: lifecycleMiddleware_def call_defs time_Now_def p broken_Store_def boom_def
        quiet_def start_def)
  from lifecycleMiddleware_tracks_and_passes_outcome
         [of broken_processor broken_Store running "''task-7''" "start ()" _ _ boom,
          OF p started handled(1)]
       lifecycleMiddleware_tracks_and_passes_outcome
         [of broken_processor broken_Store running "''task-7''" "start ()" _ _ quiet,
          OF p started handled(2)]
  show ?thesis
    using p rest by (simp add: prod_eq_iff start_def)
qed

end
